theory Spec2Isabelle
  imports Main
begin

section \<open>Data records of \<open>state/chart_dependency.go\<close>\<close>

text \<open>
  The two dependency records of the source. Both Go structs have fields \<open>ChartName\<close> and
  \<open>Repository\<close>; the fields of the resolved record carry the suffix \<open>_r\<close>.
\<close>

record unresolvedChartDependency =
  ChartName :: string
  Repository :: string
  VersionConstraint :: string

record ResolvedChartDependency =
  ChartName_r :: string
  Repository_r :: string
  Version_r :: string

text \<open>
  \<open>UnresolvedDependencies\<close> and \<open>ResolvedDependencies\<close> are structs around one Go map
  from chart name to record; a Go map is a finite partial function.
\<close>

record UnresolvedDependencies =
  deps :: "string \<rightharpoonup> unresolvedChartDependency"

record ResolvedDependencies =
  deps_r :: "string \<rightharpoonup> ResolvedChartDependency"

record ChartRequirements =
  req_dependencies :: "unresolvedChartDependency list"

record ChartLockedRequirements =
  lock_dependencies :: "ResolvedChartDependency list"

text \<open>
  Go's \<open>error\<close> values. The source builds its own errors with \<open>fmt.Errorf\<close>; each
  constructor carries the arguments of the format string. The remaining constructors are
  the errors of the collaborators (file functions, YAML library, dependency updater).
\<close>

datatype error =
    DuplicateUnresolved string unresolvedChartDependency unresolvedChartDependency
  | DuplicateResolved string
  | NoResolvedDependency string
  | UnableToResolve nat error
  | NotExist string
  | IOFailure string
  | YamlFailure string
  | UpdaterFailure string

text \<open>
  A Go panic ends the call without a result. \<open>UnsupportedChartName\<close> is the explicit
  \<open>panic\<close> of \<open>resolveRemoteChart\<close>; \<open>NilPointerDereference\<close> is the run-time panic of a
  field access through a nil pointer.
\<close>

datatype panic = UnsupportedChartName string | NilPointerDereference

datatype 'a outcome = Return 'a | Panic panic

section \<open>Collaborators outside the file\<close>

text \<open>
  \<open>isLocalChart\<close> is a function of the package that is not part of this file, and
  \<open>yaml.Marshal\<close> and \<open>yaml.Unmarshal\<close> belong to a library. They are parameters of the
  model. A byte slice that can be nil is a \<open>string option\<close>. \<open>yaml_Unmarshal\<close> returns
  the error and the \<open>ChartLockedRequirements\<close> value it has decoded into.
\<close>

record env =
  isLocalChart :: "string \<Rightarrow> bool"
  yaml_Marshal :: "ChartRequirements \<Rightarrow> string option \<times> error option"
  yaml_Unmarshal :: "string option \<Rightarrow> error option \<times> ChartLockedRequirements"

subsection \<open>Go standard library: \<open>strings\<close> and \<open>path/filepath\<close> (Unix)\<close>

definition strings_HasSuffix :: "string \<Rightarrow> string \<Rightarrow> bool" where
  "strings_HasSuffix s suffix =
     (length suffix \<le> length s \<and> drop (length s - length suffix) s = suffix)"

definition strings_TrimSuffix :: "string \<Rightarrow> string \<Rightarrow> string" where
  "strings_TrimSuffix s suffix =
     (if strings_HasSuffix s suffix then take (length s - length suffix) s else s)"

text \<open>\<open>strings.Split(s, "/")\<close>: one more part than there are separators.\<close>

fun strings_Split :: "string \<Rightarrow> string list" where
  "strings_Split [] = [[]]"
| "strings_Split (c # cs) =
     (if c = CHR ''/'' then [] # strings_Split cs
      else (case strings_Split cs of [] \<Rightarrow> [[c]] | p # ps \<Rightarrow> (c # p) # ps))"

fun strings_Join :: "string list \<Rightarrow> string" where
  "strings_Join [] = []"
| "strings_Join [p] = p"
| "strings_Join (p # q # ps) = p @ ''/'' @ strings_Join (q # ps)"

definition filepath_Base :: "string \<Rightarrow> string" where
  "filepath_Base path =
     (if path = [] then ''.''
      else (let stripped = rev (dropWhile (\<lambda>c. c = CHR ''/'') (rev path));
                element = rev (takeWhile (\<lambda>c. c \<noteq> CHR ''/'') (rev stripped))
            in if element = [] then ''/'' else element))"

text \<open>
  \<open>filepath.Clean\<close> works on the path elements: empty elements and \<open>.\<close> are dropped,
  \<open>..\<close> removes the element before it when there is one that is not \<open>..\<close>, is dropped
  at the root, and is kept otherwise. \<open>stack\<close> holds the elements kept so far, the last
  one first.
\<close>

definition Clean_step :: "bool \<Rightarrow> string \<Rightarrow> string list \<Rightarrow> string list" where
  "Clean_step rooted element stack =
     (if element = [] \<or> element = ''.'' then stack
      else if element = ''..'' then
        (case stack of
           [] \<Rightarrow> if rooted then [] else [element]
         | e # rest \<Rightarrow> if e \<noteq> ''..'' then rest
                      else if rooted then stack else element # stack)
      else element # stack)"

definition filepath_Clean :: "string \<Rightarrow> string" where
  "filepath_Clean path =
     (if path = [] then ''.''
      else (let rooted = (hd path = CHR ''/'');
                stack = fold (Clean_step rooted) (strings_Split path) [];
                out = (if rooted then ''/'' else []) @ strings_Join (rev stack)
            in if out = [] then ''.'' else out))"

text \<open>\<open>filepath.Join\<close> of two elements.\<close>

definition filepath_Join :: "string \<Rightarrow> string \<Rightarrow> string" where
  "filepath_Join dir file =
     (if dir \<noteq> [] then filepath_Clean (dir @ ''/'' @ file)
      else if file \<noteq> [] then filepath_Clean file
      else [])"

section \<open>\<open>UnresolvedDependencies\<close>\<close>

text \<open>
  \<open>add\<close> mutates the map behind the pointer receiver; the model returns the error
  (\<open>None\<close> is Go's \<open>nil\<close>) together with the set after the call.
\<close>

definition UnresolvedDependencies_add ::
  "unresolvedChartDependency \<Rightarrow> UnresolvedDependencies \<Rightarrow> error option \<times> UnresolvedDependencies" where
  "UnresolvedDependencies_add dep d =
     (case deps d (ChartName dep) of
        Some existing \<Rightarrow>
          if Repository existing \<noteq> Repository dep
             \<or> VersionConstraint existing \<noteq> VersionConstraint dep
          then (Some (DuplicateUnresolved (ChartName dep) existing dep), d)
          else (None, d\<lparr>deps := (deps d)(ChartName dep \<mapsto> dep)\<rparr>)
      | None \<Rightarrow> (None, d\<lparr>deps := (deps d)(ChartName dep \<mapsto> dep)\<rparr>))"

definition UnresolvedDependencies_Add ::
  "string \<Rightarrow> string \<Rightarrow> string \<Rightarrow> UnresolvedDependencies \<Rightarrow> error option \<times> UnresolvedDependencies" where
  "UnresolvedDependencies_Add chart url versionConstraint d =
     UnresolvedDependencies_add
       \<lparr>ChartName = chart, Repository = url, VersionConstraint = versionConstraint\<rparr> d"

text \<open>
  \<open>ToChartRequirements\<close> ranges over the map. Go leaves the iteration order of a map
  unspecified, so the order is a parameter: the list \<open>ks\<close> of keys in the order the
  \<open>range\<close> visits them. The loop variable is a copy of the stored record; the assignment
  of \<open>"*"\<close> goes to the copy. The set is threaded through the loop and returned, so that
  what the call does to it is part of the result.
\<close>

fun ToChartRequirements_loop ::
  "string list \<Rightarrow> UnresolvedDependencies \<Rightarrow> unresolvedChartDependency list
     \<Rightarrow> unresolvedChartDependency list \<times> UnresolvedDependencies" where
  "ToChartRequirements_loop [] d acc = (acc, d)"
| "ToChartRequirements_loop (k # ks) d acc =
     (case deps d k of
        None \<Rightarrow> ToChartRequirements_loop ks d acc
      | Some e \<Rightarrow>
          (let e' = (if VersionConstraint e = [] then e\<lparr>VersionConstraint := ''*''\<rparr> else e)
           in ToChartRequirements_loop ks d (acc @ [e'])))"

definition ToChartRequirements ::
  "string list \<Rightarrow> UnresolvedDependencies \<Rightarrow> ChartRequirements \<times> UnresolvedDependencies" where
  "ToChartRequirements ks d =
     (case ToChartRequirements_loop ks d [] of
        (ds, d') \<Rightarrow> (\<lparr>req_dependencies = ds\<rparr>, d'))"

section \<open>\<open>ResolvedDependencies\<close>\<close>

definition ResolvedDependencies_add ::
  "ResolvedChartDependency \<Rightarrow> ResolvedDependencies \<Rightarrow> error option \<times> ResolvedDependencies" where
  "ResolvedDependencies_add dep d =
     (case deps_r d (ChartName_r dep) of
        Some _ \<Rightarrow> (Some (DuplicateResolved (ChartName_r dep)), d)
      | None \<Rightarrow> (None, d\<lparr>deps_r := (deps_r d)(ChartName_r dep \<mapsto> dep)\<rparr>))"

text \<open>
  \<open>Get\<close> has a pointer receiver and reads \<open>d.deps\<close> first: on a nil receiver that read
  is a nil pointer dereference.
\<close>

definition ResolvedDependencies_Get ::
  "ResolvedDependencies option \<Rightarrow> string \<Rightarrow> (string \<times> error option) outcome" where
  "ResolvedDependencies_Get d chart =
     (case d of
        None \<Rightarrow> Panic NilPointerDereference
      | Some d' \<Rightarrow>
          (case deps_r d' chart of
             None \<Rightarrow> Return ([], Some (NoResolvedDependency chart))
           | Some dep \<Rightarrow> Return (Version_r dep, None)))"

section \<open>Chart references\<close>

definition resolveRemoteChart :: "env \<Rightarrow> string \<Rightarrow> (string \<times> string \<times> bool) outcome" where
  "resolveRemoteChart E repoAndChart =
     (let parts = strings_Split repoAndChart
      in if isLocalChart E repoAndChart then Return ([], [], False)
         else if length parts \<noteq> 2 then Panic (UnsupportedChartName repoAndChart)
         else Return (parts ! 0, parts ! 1, True))"

section \<open>Files, the updater and the dependency manager\<close>

text \<open>
  The world outside the process: the files by path, the paths whose read or write fails
  for a reason of its own, and the trace of what has happened. \<open>readBytes\<close> and
  \<open>writeBytes\<close> log every read and write that succeeded; the trace holds these log
  entries and one entry for each return of the dependency updater.
\<close>

datatype event =
    ReadFrom string "string option"
  | WroteTo string "string option"
  | UpdateDepsReturned string "error option"

record world =
  files :: "string \<rightharpoonup> string"
  read_fault :: "string \<rightharpoonup> error"
  write_fault :: "string \<rightharpoonup> error"
  trace :: "event list"

text \<open>
  \<open>chartDependencyManager\<close> holds its name and the two injected file functions (the
  logger is the trace). The file mode argument of \<open>writeFile\<close> is always \<open>0644\<close> and is
  left out.
\<close>

record chartDependencyManager =
  Name :: string
  readFile :: "string \<Rightarrow> world \<Rightarrow> string option \<times> error option"
  writeFile :: "string \<Rightarrow> string option \<Rightarrow> world \<Rightarrow> error option \<times> world"

text \<open>
  \<open>ioutil.ReadFile\<close> and \<open>ioutil.WriteFile\<close> on the world: a read of a path without a
  file reports that the file does not exist; a write that fails leaves the files as they
  are.
\<close>

definition ioutil_ReadFile :: "string \<Rightarrow> world \<Rightarrow> string option \<times> error option" where
  "ioutil_ReadFile filename w =
     (case read_fault w filename of
        Some err \<Rightarrow> (None, Some err)
      | None \<Rightarrow>
          (case files w filename of
             None \<Rightarrow> (None, Some (NotExist filename))
           | Some content \<Rightarrow> (Some content, None)))"

definition ioutil_WriteFile :: "string \<Rightarrow> string option \<Rightarrow> world \<Rightarrow> error option \<times> world" where
  "ioutil_WriteFile filename data w =
     (case write_fault w filename of
        Some err \<Rightarrow> (Some err, w)
      | None \<Rightarrow>
          (None, w\<lparr>files := (files w)(filename \<mapsto> (case data of None \<Rightarrow> [] | Some b \<Rightarrow> b))\<rparr>))"

definition os_IsNotExist :: "error \<Rightarrow> bool" where
  "os_IsNotExist err = (case err of NotExist _ \<Rightarrow> True | _ \<Rightarrow> False)"

definition NewChartDependencyManager :: "string \<Rightarrow> chartDependencyManager" where
  "NewChartDependencyManager name =
     \<lparr>Name = name, readFile = ioutil_ReadFile, writeFile = ioutil_WriteFile\<rparr>"

definition lockFileName :: "chartDependencyManager \<Rightarrow> string" where
  "lockFileName m = Name m @ ''.lock''"

definition readBytes ::
  "chartDependencyManager \<Rightarrow> string \<Rightarrow> world \<Rightarrow> (string option \<times> error option) \<times> world" where
  "readBytes m filename w =
     (case readFile m filename w of
        (bytes, Some err) \<Rightarrow> ((None, Some err), w)
      | (bytes, None) \<Rightarrow> ((bytes, None), w\<lparr>trace := trace w @ [ReadFrom filename bytes]\<rparr>))"

definition writeBytes ::
  "chartDependencyManager \<Rightarrow> string \<Rightarrow> string option \<Rightarrow> world \<Rightarrow> error option \<times> world" where
  "writeBytes m filename data w =
     (case writeFile m filename data w of
        (Some err, w') \<Rightarrow> (Some err, w')
      | (None, w') \<Rightarrow> (None, w'\<lparr>trace := trace w' @ [WroteTo filename data]\<rparr>))"

text \<open>
  The dependency updater (\<open>helmexec.DependencyUpdater\<close>) is external: a function from the
  workspace directory and the files to an error and the files it leaves behind.
\<close>

type_synonym DependencyUpdater = "string \<Rightarrow> (string \<rightharpoonup> string) \<Rightarrow> error option \<times> (string \<rightharpoonup> string)"

definition UpdateDeps :: "DependencyUpdater \<Rightarrow> string \<Rightarrow> world \<Rightarrow> error option \<times> world" where
  "UpdateDeps shell wd w =
     (case shell wd (files w) of
        (err, fs) \<Rightarrow> (err, w\<lparr>files := fs, trace := trace w @ [UpdateDepsReturned wd err]\<rparr>))"

subsection \<open>\<open>Resolve\<close>\<close>

fun Resolve_loop ::
  "ResolvedChartDependency list \<Rightarrow> ResolvedDependencies \<Rightarrow> error option \<times> ResolvedDependencies" where
  "Resolve_loop [] resolved = (None, resolved)"
| "Resolve_loop (d # ds) resolved =
     (case ResolvedDependencies_add d resolved of
        (Some err, resolved') \<Rightarrow> (Some err, resolved')
      | (None, resolved') \<Rightarrow> Resolve_loop ds resolved')"

text \<open>
  The result is the triple the Go function returns (a nil \<open>*ResolvedDependencies\<close> is
  \<open>None\<close>), with the world after the call.
\<close>

definition Resolve ::
  "env \<Rightarrow> chartDependencyManager \<Rightarrow> UnresolvedDependencies \<Rightarrow> world
     \<Rightarrow> (ResolvedDependencies option \<times> bool \<times> error option) \<times> world" where
  "Resolve E m unresolved w =
     (case readBytes m (lockFileName m) w of
        ((_, Some err), w1) \<Rightarrow>
          if os_IsNotExist err then ((None, True, None), w1)
          else ((None, False, Some err), w1)
      | ((updatedLockFileContent, None), w1) \<Rightarrow>
          (case yaml_Unmarshal E updatedLockFileContent of
             (Some err, _) \<Rightarrow> ((None, False, Some err), w1)
           | (None, lockedReqs) \<Rightarrow>
               (case Resolve_loop (lock_dependencies lockedReqs) \<lparr>deps_r = Map.empty\<rparr> of
                  (Some err, _) \<Rightarrow> ((None, False, Some err), w1)
                | (None, resolved) \<Rightarrow> ((Some resolved, True, None), w1))))"

subsection \<open>\<open>Update\<close>\<close>

text \<open>
  \<open>ks\<close> is the order in which \<open>ToChartRequirements\<close> visits the keys of the unresolved
  set. The result is the pair the Go function returns, with the world after the call.
\<close>

definition Update ::
  "env \<Rightarrow> chartDependencyManager \<Rightarrow> DependencyUpdater \<Rightarrow> string \<Rightarrow> UnresolvedDependencies
     \<Rightarrow> string list \<Rightarrow> world \<Rightarrow> (ResolvedDependencies option \<times> error option) \<times> world" where
  "Update E m shell wd unresolved ks w =
     (case writeBytes m (filepath_Join wd ''Chart.yaml'')
             (Some (''name: '' @ Name m @ [CHR 0x0A])) w of
        (Some err, w1) \<Rightarrow> ((None, Some err), w1)
      | (None, w1) \<Rightarrow>
     (case yaml_Marshal E (fst (ToChartRequirements ks unresolved)) of
        (_, Some err) \<Rightarrow> ((None, Some err), w1)
      | (reqsContent, None) \<Rightarrow>
     (case writeBytes m (filepath_Join wd ''requirements.yaml'') reqsContent w1 of
        (Some err, w2) \<Rightarrow> ((None, Some err), w2)
      | (None, w2) \<Rightarrow>
     (let lockFile = lockFileName m in
      case readBytes m lockFile w2 of
        ((lockFileContent, err), w3) \<Rightarrow>
     (if (case err of None \<Rightarrow> False | Some e \<Rightarrow> \<not> os_IsNotExist e) then ((None, err), w3)
      else
     (case (if lockFileContent \<noteq> None
            then writeBytes m (filepath_Join wd ''requirements.lock'') lockFileContent w3
            else (None, w3)) of
        (Some err, w4) \<Rightarrow> ((None, Some err), w4)
      | (None, w4) \<Rightarrow>
     (case UpdateDeps shell wd w4 of
        (Some err, w5) \<Rightarrow> ((None, Some err), w5)
      | (None, w5) \<Rightarrow>
     (case readBytes m (filepath_Join wd ''requirements.lock'') w5 of
        ((_, Some err), w6) \<Rightarrow> ((None, Some err), w6)
      | ((updatedLockFileContent, None), w6) \<Rightarrow>
     (case writeBytes m lockFile updatedLockFileContent w6 of
        (Some err, w7) \<Rightarrow> ((None, Some err), w7)
      | (None, w7) \<Rightarrow>
     (case Resolve E m unresolved w7 of
        ((resolved, _, err), w8) \<Rightarrow> ((resolved, err), w8)))))))))))"

section \<open>The document and the heap\<close>

text \<open>
  \<open>HelmState\<close>, \<open>RepositorySpec\<close> and \<open>ReleaseSpec\<close> are declared elsewhere in the
  package; the records have the fields this file reads and writes. The functions below
  get a \<open>*HelmState\<close> and assign to elements of its \<open>Releases\<close> slice, so documents and
  the backing arrays of release slices live in a heap: a \<open>*HelmState\<close> is an index into
  \<open>docs\<close> (an index that is out of range is the nil pointer), and the \<open>Releases\<close> field
  of a document is the index of the backing array in \<open>arrays\<close> (out of range: the nil
  slice). Nothing here reslices or appends to \<open>Releases\<close>, so a slice is the whole
  array. Copying a \<open>HelmState\<close> value copies the index and not the array.
  \<open>Repositories\<close> is only read and is kept as a value.
\<close>

record RepositorySpec =
  Name_repo :: string
  URL :: string

record ReleaseSpec =
  Chart :: string
  Version :: string

record HelmState =
  FilePath :: string
  Repositories :: "RepositorySpec list"
  Releases :: nat

record heap =
  docs :: "HelmState list"
  arrays :: "ReleaseSpec list list"

definition deref :: "heap \<Rightarrow> nat \<Rightarrow> HelmState option" where
  "deref h st = (if st < length (docs h) then Some (docs h ! st) else None)"

definition slice_elems :: "heap \<Rightarrow> nat \<Rightarrow> ReleaseSpec list" where
  "slice_elems h a = (if a < length (arrays h) then arrays h ! a else [])"

text \<open>The assignment \<open>Releases[i].Version = ver\<close> through the slice \<open>a\<close>.\<close>

definition set_Version :: "heap \<Rightarrow> nat \<Rightarrow> nat \<Rightarrow> string \<Rightarrow> heap" where
  "set_Version h a i ver =
     h\<lparr>arrays := (arrays h)[a := (arrays h ! a)[i := (arrays h ! a ! i)\<lparr>Version := ver\<rparr>]]\<rparr>"

text \<open>The loop that fills \<open>repoToURL\<close>: a later repository of the same name wins.\<close>

definition repoToURL_of :: "RepositorySpec list \<Rightarrow> (string \<rightharpoonup> string)" where
  "repoToURL_of repos = fold (\<lambda>r m. m(Name_repo r \<mapsto> URL r)) repos Map.empty"

section \<open>Scanning the releases\<close>

fun getUnresolvedDependenciess_loop ::
  "env \<Rightarrow> (string \<rightharpoonup> string) \<Rightarrow> ReleaseSpec list \<Rightarrow> UnresolvedDependencies
     \<Rightarrow> (error option \<times> UnresolvedDependencies) outcome" where
  "getUnresolvedDependenciess_loop E repoToURL [] unresolved = Return (None, unresolved)"
| "getUnresolvedDependenciess_loop E repoToURL (r # rs) unresolved =
     (case resolveRemoteChart E (Chart r) of
        Panic p \<Rightarrow> Panic p
      | Return (repo, chart, ok) \<Rightarrow>
          if \<not> ok then getUnresolvedDependenciess_loop E repoToURL rs unresolved
          else
            (case repoToURL repo of
               None \<Rightarrow> getUnresolvedDependenciess_loop E repoToURL rs unresolved
             | Some url \<Rightarrow>
                 (case UnresolvedDependencies_Add chart url (Version r) unresolved of
                    (Some err, unresolved') \<Rightarrow> Return (Some err, unresolved')
                  | (None, unresolved') \<Rightarrow>
                      getUnresolvedDependenciess_loop E repoToURL rs unresolved')))"

text \<open>
  The result is the triple \<open>(filename, unresolved, err)\<close>; a nil
  \<open>*UnresolvedDependencies\<close> is \<open>None\<close>. The loop does not write to the heap.
\<close>

definition getUnresolvedDependenciess ::
  "env \<Rightarrow> nat \<Rightarrow> heap \<Rightarrow> (string \<times> UnresolvedDependencies option \<times> error option) outcome" where
  "getUnresolvedDependenciess E st h =
     (case deref h st of
        None \<Rightarrow> Panic NilPointerDereference
      | Some doc \<Rightarrow>
          (case getUnresolvedDependenciess_loop E (repoToURL_of (Repositories doc))
                  (slice_elems h (Releases doc)) \<lparr>deps = Map.empty\<rparr> of
             Panic p \<Rightarrow> Panic p
           | Return (Some err, _) \<Rightarrow> Return ([], None, Some err)
           | Return (None, unresolved) \<Rightarrow>
               (let filename = filepath_Base (FilePath doc);
                    filename = strings_TrimSuffix filename ''.gotmpl'';
                    filename = strings_TrimSuffix filename ''.yaml'';
                    filename = strings_TrimSuffix filename ''.yml''
                in Return (filename, Some unresolved, None))))"

section \<open>Merging the locked versions\<close>

text \<open>
  The loop of \<open>resolveDependencies\<close> over \<open>updated.Releases\<close>, the slice \<open>a\<close>: \<open>n\<close> is the
  length of the slice, taken once when the \<open>range\<close> starts, and \<open>i\<close> the index. The
  element is read from the heap in each round and the version is written to the heap.
  The result is the error the function returns from inside the loop, if any.
\<close>

function resolveDependencies_loop ::
  "env \<Rightarrow> (string \<rightharpoonup> string) \<Rightarrow> ResolvedDependencies option \<Rightarrow> nat \<Rightarrow> nat \<Rightarrow> nat \<Rightarrow> heap
     \<Rightarrow> error option outcome \<times> heap" where
  "resolveDependencies_loop E repoToURL resolved a i n h =
     (if \<not> i < n then (Return None, h)
      else
        (case resolveRemoteChart E (Chart (slice_elems h a ! i)) of
           Panic p \<Rightarrow> (Panic p, h)
         | Return (repo, chart, ok) \<Rightarrow>
             if \<not> ok then resolveDependencies_loop E repoToURL resolved a (Suc i) n h
             else
               (case repoToURL repo of
                  None \<Rightarrow> resolveDependencies_loop E repoToURL resolved a (Suc i) n h
                | Some _ \<Rightarrow>
                    (case ResolvedDependencies_Get resolved chart of
                       Panic p \<Rightarrow> (Panic p, h)
                     | Return (ver, Some err) \<Rightarrow> (Return (Some err), h)
                     | Return (ver, None) \<Rightarrow>
                         resolveDependencies_loop E repoToURL resolved a (Suc i) n
                           (set_Version h a i ver)))))"
  by pat_completeness auto
termination
  by (relation "measure (\<lambda>(E, repoToURL, resolved, a, i, n, h). n - i)") auto

text \<open>
  \<open>resolveDependencies\<close> returns \<open>(*HelmState, error)\<close>. \<open>updated := *st\<close> copies the
  document value; the copy gets its place in the heap where \<open>&updated\<close> is returned, at
  the first free index.
\<close>

definition resolveDependencies ::
  "env \<Rightarrow> nat \<Rightarrow> chartDependencyManager \<Rightarrow> UnresolvedDependencies \<Rightarrow> heap \<Rightarrow> world
     \<Rightarrow> (nat option \<times> error option) outcome \<times> heap \<times> world" where
  "resolveDependencies E st depMan unresolved h w =
     (case Resolve E depMan unresolved w of
        ((resolved, lockfileExists, Some err), w1) \<Rightarrow>
          (Return (None, Some (UnableToResolve (card (dom (deps unresolved))) err)), h, w1)
      | ((resolved, lockfileExists, None), w1) \<Rightarrow>
          if \<not> lockfileExists then (Return (Some st, None), h, w1)
          else
            (case deref h st of
               None \<Rightarrow> (Panic NilPointerDereference, h, w1)
             | Some doc \<Rightarrow>
                 (let repoToURL = repoToURL_of (Repositories doc);
                      updated = doc
                  in case resolveDependencies_loop E repoToURL resolved (Releases updated) 0
                            (length (slice_elems h (Releases updated))) h of
                       (Panic p, h1) \<Rightarrow> (Panic p, h1, w1)
                     | (Return (Some err), h1) \<Rightarrow> (Return (None, Some err), h1, w1)
                     | (Return None, h1) \<Rightarrow>
                         (Return (Some (length (docs h1)), None),
                          h1\<lparr>docs := docs h1 @ [updated]\<rparr>, w1))))"

definition mergeLockedDependencies ::
  "env \<Rightarrow> nat \<Rightarrow> heap \<Rightarrow> world \<Rightarrow> (nat option \<times> error option) outcome \<times> heap \<times> world" where
  "mergeLockedDependencies E st h w =
     (case getUnresolvedDependenciess E st h of
        Panic p \<Rightarrow> (Panic p, h, w)
      | Return (filename, unresolved, Some err) \<Rightarrow> (Return (None, Some err), h, w)
      | Return (filename, None, None) \<Rightarrow> (Panic NilPointerDereference, h, w)
      | Return (filename, Some unresolved, None) \<Rightarrow>
          if deps unresolved = Map.empty then (Return (Some st, None), h, w)
          else resolveDependencies E st (NewChartDependencyManager filename) unresolved h w)"

section \<open>Collaborators for the examples\<close>

text \<open>
  Stand-ins for the collaborators, for running the functions on concrete inputs: a
  classification that takes a reference starting with \<open>.\<close> or \<open>/\<close> for a local chart, a
  decoder that knows three lock documents, an encoder, an updater that writes a lock into
  the workspace and one that fails.
\<close>

definition test_isLocalChart :: "string \<Rightarrow> bool" where
  "test_isLocalChart chart = (take 1 chart = ''.'' \<or> take 1 chart = ''/'')"

definition test_Unmarshal :: "string option \<Rightarrow> error option \<times> ChartLockedRequirements" where
  "test_Unmarshal bytes =
     (if bytes = Some ''envoy 1.2.3'' then
        (None, \<lparr>lock_dependencies =
           [\<lparr>ChartName_r = ''envoy'', Repository_r = ''https://example.com/charts'',
             Version_r = ''1.2.3''\<rparr>]\<rparr>)
      else if bytes = Some ''envoy 1.2.3, envoy 1.3.0'' then
        (None, \<lparr>lock_dependencies =
           [\<lparr>ChartName_r = ''envoy'', Repository_r = ''https://example.com/charts'',
             Version_r = ''1.2.3''\<rparr>,
            \<lparr>ChartName_r = ''envoy'', Repository_r = ''https://example.com/charts'',
             Version_r = ''1.3.0''\<rparr>]\<rparr>)
      else if bytes = Some ''nginx 1.4.0'' then
        (None, \<lparr>lock_dependencies =
           [\<lparr>ChartName_r = ''nginx'', Repository_r = ''https://example.com/charts'',
             Version_r = ''1.4.0''\<rparr>]\<rparr>)
      else (Some (YamlFailure ''cannot unmarshal''), \<lparr>lock_dependencies = []\<rparr>))"

definition test_Marshal :: "ChartRequirements \<Rightarrow> string option \<times> error option" where
  "test_Marshal reqs = (Some ''requirements'', None)"

definition test_env :: env where
  "test_env =
     \<lparr>isLocalChart = test_isLocalChart, yaml_Marshal = test_Marshal,
      yaml_Unmarshal = test_Unmarshal\<rparr>"

definition test_shell :: "string \<Rightarrow> DependencyUpdater" where
  "test_shell out wd fs = (None, fs(filepath_Join wd ''requirements.lock'' \<mapsto> out))"

definition failing_shell :: DependencyUpdater where
  "failing_shell wd fs = (Some (UpdaterFailure ''exit status 1''), fs)"

definition empty_world :: world where
  "empty_world = \<lparr>files = Map.empty, read_fault = Map.empty, write_fault = Map.empty, trace = []\<rparr>"

text \<open>
  A document \<open>helmfile.yaml\<close> at index 0 of the heap, with the repository
  \<open>myrepo\<close> and the releases given.
\<close>

definition test_heap :: "ReleaseSpec list \<Rightarrow> heap" where
  "test_heap rs =
     \<lparr>docs = [\<lparr>FilePath = ''helmfile.yaml'',
               Repositories = [\<lparr>Name_repo = ''myrepo'', URL = ''https://example.com/charts''\<rparr>],
               Releases = 0\<rparr>],
      arrays = [rs]\<rparr>"

declare resolveDependencies_loop.simps [simp del]

section \<open>Properties of \<open>UnresolvedDependencies\<close>\<close>

lemmas path_defs = filepath_Join_def filepath_Clean_def Clean_step_def filepath_Base_def
  strings_TrimSuffix_def strings_HasSuffix_def
lemmas io_defs = readBytes_def writeBytes_def ioutil_ReadFile_def ioutil_WriteFile_def
  NewChartDependencyManager_def lockFileName_def os_IsNotExist_def UpdateDeps_def
lemmas test_defs = test_env_def test_isLocalChart_def test_Unmarshal_def test_Marshal_def
  test_shell_def failing_shell_def empty_world_def test_heap_def
lemmas heap_defs = deref_def slice_elems_def set_Version_def repoToURL_of_def

lemma ToChartRequirements_loop_eq:
  "set ks \<subseteq> dom (deps d) \<Longrightarrow>
   ToChartRequirements_loop ks d acc =
     (acc @ map (\<lambda>k. let e = the (deps d k)
                      in if VersionConstraint e = [] then e\<lparr>VersionConstraint := ''*''\<rparr> else e) ks,
      d)"
proof (induction ks arbitrary: acc)
  case Nil
  then show ?case by simp
next
  case (Cons k ks)
  from Cons.prems obtain e where e: "deps d k = Some e" by auto
  from Cons.prems have "set ks \<subseteq> dom (deps d)" by simp
  from Cons.IH [OF this] e show ?case by (simp add: Let_def)
qed

text \<open>
  Claim C6. Adding a triple a second time changes nothing: the set after the second
  \<open>Add\<close> is the set after the first, and when the first \<open>Add\<close> returned no error the
  second returns none either. Adding a name that is present with a different url or a
  different constraint returns the duplicate error, which carries the name, the existing
  record and the incoming one, and the set is the one before the call.
\<close>

theorem Add_idempotent_and_conflict:
  "fst (UnresolvedDependencies_Add n u c (snd (UnresolvedDependencies_Add n u c d)))
     = fst (UnresolvedDependencies_Add n u c d)
   \<and> snd (UnresolvedDependencies_Add n u c (snd (UnresolvedDependencies_Add n u c d)))
     = snd (UnresolvedDependencies_Add n u c d)
   \<and> (fst (UnresolvedDependencies_Add n u c d) = None \<longrightarrow>
        fst (UnresolvedDependencies_Add n u c (snd (UnresolvedDependencies_Add n u c d))) = None)
   \<and> (\<forall>existing. deps d n = Some existing
         \<and> (Repository existing \<noteq> u \<or> VersionConstraint existing \<noteq> c) \<longrightarrow>
        UnresolvedDependencies_Add n u c d =
          (Some (DuplicateUnresolved n existing
                   \<lparr>ChartName = n, Repository = u, VersionConstraint = c\<rparr>), d))"
  by (auto simp: UnresolvedDependencies_Add_def UnresolvedDependencies_add_def
           split: option.splits)

theorem Add_idempotent_and_conflict_witness:
  "fst (UnresolvedDependencies_Add ''envoy'' ''u1'' ''1.2.0'' \<lparr>deps = Map.empty\<rparr>) = None
   \<and> UnresolvedDependencies_Add ''envoy'' ''u1'' ''1.2.0''
        (snd (UnresolvedDependencies_Add ''envoy'' ''u1'' ''1.2.0'' \<lparr>deps = Map.empty\<rparr>))
      = (None, snd (UnresolvedDependencies_Add ''envoy'' ''u1'' ''1.2.0'' \<lparr>deps = Map.empty\<rparr>))
   \<and> deps \<lparr>deps = [''envoy'' \<mapsto> \<lparr>ChartName = ''envoy'', Repository = ''u1'',
                                     VersionConstraint = ''1.2.0''\<rparr>]\<rparr> ''envoy''
      = Some \<lparr>ChartName = ''envoy'', Repository = ''u1'', VersionConstraint = ''1.2.0''\<rparr>
   \<and> Repository \<lparr>ChartName = ''envoy'', Repository = ''u1'', VersionConstraint = ''1.2.0''\<rparr> \<noteq> ''u2''
   \<and> UnresolvedDependencies_Add ''envoy'' ''u2'' ''1.2.0''
        \<lparr>deps = [''envoy'' \<mapsto> \<lparr>ChartName = ''envoy'', Repository = ''u1'',
                                 VersionConstraint = ''1.2.0''\<rparr>]\<rparr>
      = (Some (DuplicateUnresolved ''envoy''
                 \<lparr>ChartName = ''envoy'', Repository = ''u1'', VersionConstraint = ''1.2.0''\<rparr>
                 \<lparr>ChartName = ''envoy'', Repository = ''u2'', VersionConstraint = ''1.2.0''\<rparr>),
         \<lparr>deps = [''envoy'' \<mapsto> \<lparr>ChartName = ''envoy'', Repository = ''u1'',
                                  VersionConstraint = ''1.2.0''\<rparr>]\<rparr>)"
  using Add_idempotent_and_conflict [of "''envoy''" "''u1''" "''1.2.0''" "\<lparr>deps = Map.empty\<rparr>"]
    Add_idempotent_and_conflict [of "''envoy''" "''u2''" "''1.2.0''"
      "\<lparr>deps = [''envoy'' \<mapsto> \<lparr>ChartName = ''envoy'', Repository = ''u1'',
                                VersionConstraint = ''1.2.0''\<rparr>]\<rparr>"]
  by (simp add: UnresolvedDependencies_Add_def UnresolvedDependencies_add_def)

text \<open>
  Claim C7. For every order \<open>ks\<close> in which the \<open>range\<close> visits the keys of the set,
  \<open>ToChartRequirements\<close> emits, key by key, the stored record with an empty constraint
  replaced by \<open>"*"\<close>, so no emitted record has an empty constraint; the set after the call
  is the set before it, with the constraints as they were stored.
\<close>

theorem ToChartRequirements_defaults_on_copy:
  assumes "distinct ks" and "set ks = dom (deps d)"
  shows "req_dependencies (fst (ToChartRequirements ks d))
           = map (\<lambda>k. let e = the (deps d k)
                       in if VersionConstraint e = [] then e\<lparr>VersionConstraint := ''*''\<rparr> else e) ks
         \<and> (\<forall>e \<in> set (req_dependencies (fst (ToChartRequirements ks d))). VersionConstraint e \<noteq> [])
         \<and> snd (ToChartRequirements ks d) = d"
proof -
  from assms(2) have sub: "set ks \<subseteq> dom (deps d)" by simp
  show ?thesis
    by (auto simp: ToChartRequirements_def ToChartRequirements_loop_eq [OF sub] Let_def)
qed

theorem ToChartRequirements_defaults_on_copy_witness:
  "distinct [''envoy'']
   \<and> set [''envoy''] = dom (deps \<lparr>deps = [''envoy'' \<mapsto>
         \<lparr>ChartName = ''envoy'', Repository = ''u1'', VersionConstraint = []\<rparr>]\<rparr>)
   \<and> ToChartRequirements [''envoy'']
        \<lparr>deps = [''envoy'' \<mapsto> \<lparr>ChartName = ''envoy'', Repository = ''u1'', VersionConstraint = []\<rparr>]\<rparr>
      = (\<lparr>req_dependencies = [\<lparr>ChartName = ''envoy'', Repository = ''u1'', VersionConstraint = ''*''\<rparr>]\<rparr>,
         \<lparr>deps = [''envoy'' \<mapsto> \<lparr>ChartName = ''envoy'', Repository = ''u1'', VersionConstraint = []\<rparr>]\<rparr>)"
  using ToChartRequirements_defaults_on_copy [of "[''envoy'']"
     "\<lparr>deps = [''envoy'' \<mapsto> \<lparr>ChartName = ''envoy'', Repository = ''u1'', VersionConstraint = []\<rparr>]\<rparr>"]
  by (simp add: ToChartRequirements_def)

section \<open>Properties of chart references\<close>

text \<open>
  Claim C4, as stated, fails: the non-local reference \<open>a/b/c\<close> has three segments, and
  \<open>resolveRemoteChart\<close> panics on it instead of returning an error; the non-local
  reference \<open>a/\<close> has an empty second segment and is accepted as remote.
\<close>

theorem resolveRemoteChart_malformed_counterexample:
  "\<not> isLocalChart test_env ''a/b/c''
   \<and> strings_Split ''a/b/c'' = [''a'', ''b'', ''c'']
   \<and> resolveRemoteChart test_env ''a/b/c'' = Panic (UnsupportedChartName ''a/b/c'')
   \<and> \<not> isLocalChart test_env ''a/''
   \<and> strings_Split ''a/'' = [''a'', []]
   \<and> resolveRemoteChart test_env ''a/'' = Return (''a'', [], True)"
  by (simp add: resolveRemoteChart_def test_defs)

text \<open>
  Claim C4, amended. For every non-local chart reference: when it does not split into
  exactly two segments, \<open>resolveRemoteChart\<close> panics with the message that names the
  reference; when it splits into exactly two segments, empty or not, it is returned as
  remote with the two segments as repository and chart.
\<close>

theorem resolveRemoteChart_nonlocal:
  assumes "\<not> isLocalChart E c"
  shows "(length (strings_Split c) \<noteq> 2 \<longrightarrow> resolveRemoteChart E c = Panic (UnsupportedChartName c))
       \<and> (\<forall>a b. strings_Split c = [a, b] \<longrightarrow> resolveRemoteChart E c = Return (a, b, True))"
  using assms by (simp add: resolveRemoteChart_def)

theorem resolveRemoteChart_nonlocal_witness:
  "\<not> isLocalChart test_env ''a/b/c''
   \<and> length (strings_Split ''a/b/c'') \<noteq> 2
   \<and> resolveRemoteChart test_env ''a/b/c'' = Panic (UnsupportedChartName ''a/b/c'')
   \<and> \<not> isLocalChart test_env ''myrepo/envoy''
   \<and> strings_Split ''myrepo/envoy'' = [''myrepo'', ''envoy'']
   \<and> resolveRemoteChart test_env ''myrepo/envoy'' = Return (''myrepo'', ''envoy'', True)"
  using resolveRemoteChart_nonlocal [of test_env "''a/b/c''"]
    resolveRemoteChart_nonlocal [of test_env "''myrepo/envoy''"]
  by (simp add: test_defs)

section \<open>Properties of \<open>Resolve\<close>\<close>

text \<open>
  Claim C1 says that \<open>Resolve\<close> returns \<open>(nil, false, nil)\<close> when the injected read
  reports that the lock file does not exist. The code returns \<open>(nil, true, nil)\<close>: for
  every manager, unresolved set and world in which the read of the lock file fails with
  a does-not-exist error, the boolean is \<open>True\<close>.
\<close>

theorem Resolve_without_lock:
  assumes "readFile m (lockFileName m) w = (bytes, Some err)" and "os_IsNotExist err"
  shows "Resolve E m unresolved w = ((None, True, None), w)"
  using assms by (simp add: Resolve_def readBytes_def)

theorem Resolve_without_lock_witness:
  "readFile (NewChartDependencyManager ''helmfile'')
       (lockFileName (NewChartDependencyManager ''helmfile'')) empty_world
     = (None, Some (NotExist ''helmfile.lock''))
   \<and> os_IsNotExist (NotExist ''helmfile.lock'')
   \<and> Resolve test_env (NewChartDependencyManager ''helmfile'') \<lparr>deps = Map.empty\<rparr> empty_world
     = ((None, True, None), empty_world)"
  using Resolve_without_lock [of "NewChartDependencyManager ''helmfile''" empty_world None
      "NotExist ''helmfile.lock''" test_env "\<lparr>deps = Map.empty\<rparr>"]
  by (simp add: io_defs empty_world_def)

end
